theory Spec2Isabelle
  imports Main
begin

section \<open>Data model of TicTacToeGame.ts\<close>

text \<open>
  The file \<^verbatim>\<open>src/town/games/TicTacToeGame.ts\<close> holds two classes: the engine
  \<^verbatim>\<open>TicTacToeGame\<close> (methods \<^verbatim>\<open>applyMove\<close>, \<^verbatim>\<open>_checkForWin\<close>, \<^verbatim>\<open>_join\<close>,
  \<^verbatim>\<open>_leave\<close>) and the router \<^verbatim>\<open>TicTacToeGameArea\<close> (method \<^verbatim>\<open>handleCommand\<close>).
  Mutation of \<^verbatim>\<open>this\<close> is explicit state passing; a \<^verbatim>\<open>throw\<close> is the left
  summand of the result. No method mutates anything before it throws, so a failed call
  leaves the object as it was.
\<close>

datatype GameStatus = WAITING_TO_START | IN_PROGRESS | OVER

datatype GamePiece = PieceX | PieceO

text \<open>A \<^verbatim>\<open>Player\<close> object; the game code reads only its \<^verbatim>\<open>id\<close>.\<close>

record Player =
  player_id :: string
  userName :: string

record TicTacToeMove =
  gamePiece :: GamePiece
  row :: nat
  col :: nat

text \<open>
  \<^verbatim>\<open>TicTacToeGameState\<close>: the optional fields \<^verbatim>\<open>x\<close>, \<^verbatim>\<open>o\<close> and \<^verbatim>\<open>winner\<close>
  are \<open>None\<close> when undefined (\<^verbatim>\<open>x\<close> and \<^verbatim>\<open>o\<close> are named \<open>x_slot\<close> and
  \<open>o_slot\<close> here).
\<close>

record TicTacToeGameState =
  moves :: "TicTacToeMove list"
  status :: GameStatus
  x_slot :: "string option"
  o_slot :: "string option"
  winner :: "string option"

text \<open>
  A game object: its \<^verbatim>\<open>id\<close>, the roster \<^verbatim>\<open>_players\<close> and its \<^verbatim>\<open>state\<close>.
\<close>

record TicTacToeGame =
  game_id :: string
  players :: "Player list"
  state :: TicTacToeGameState

text \<open>The argument of \<^verbatim>\<open>applyMove\<close>, a \<^verbatim>\<open>GameMove<TicTacToeMove>\<close>.\<close>

record GameMove =
  playerID :: string
  gameID :: string
  move :: TicTacToeMove

text \<open>
  What a \<^verbatim>\<open>throw\<close> can carry and a \<^verbatim>\<open>catch\<close> can receive: an \<^verbatim>\<open>Error\<close> object
  with its message, or a primitive string. Every \<^verbatim>\<open>throw\<close> of the file throws
  \<^verbatim>\<open>new Error(...)\<close>.
\<close>

datatype thrown = ErrorObject string | StringValue string

text \<open>
  JavaScript's \<^verbatim>\<open>===\<close> between a caught value and a string: an object is never
  strictly equal to a primitive string.
\<close>

fun strict_equals :: "thrown \<Rightarrow> string \<Rightarrow> bool" where
  "strict_equals (ErrorObject m) s = False"
| "strict_equals (StringValue t) s = (t = s)"

text \<open>The string that \<^verbatim>\<open>new Error(v)\<close> takes as its message.\<close>

fun to_message :: "thrown \<Rightarrow> string" where
  "to_message (StringValue t) = t"
| "to_message (ErrorObject m) = ''Error: '' @ m"

text \<open>
  Truthiness of an optional string, as \<^verbatim>\<open>!this.state.x\<close> tests it: undefined and
  the empty string are falsy.
\<close>

fun truthy :: "string option \<Rightarrow> bool" where
  "truthy None = False"
| "truthy (Some s) = (s \<noteq> [])"

text \<open>\<^verbatim>\<open>Array.prototype.findIndex\<close>, with \<open>None\<close> for the result \<^verbatim>\<open>-1\<close>.\<close>

fun findIndex :: "('a \<Rightarrow> bool) \<Rightarrow> 'a list \<Rightarrow> nat option" where
  "findIndex P [] = None"
| "findIndex P (y # ys) =
     (if P y then Some 0 else map_option Suc (findIndex P ys))"

text \<open>\<^verbatim>\<open>xs.splice(i, 1)\<close>: the array without its element at index \<open>i\<close>.\<close>

definition splice1 :: "nat \<Rightarrow> 'a list \<Rightarrow> 'a list" where
  "splice1 i xs = take i xs @ drop (Suc i) xs"

text \<open>
  \<^verbatim>\<open>String.prototype.indexOf\<close>: the first position at which \<open>v\<close> occurs in the
  string, or \<open>-1\<close>; the empty string occurs at position 0.
\<close>

fun indexOf_from :: "nat \<Rightarrow> string \<Rightarrow> string \<Rightarrow> int" where
  "indexOf_from i [] v = (if v = [] then int i else - 1)"
| "indexOf_from i (c # cs) v =
     (if take (length v) (c # cs) = v then int i else indexOf_from (Suc i) cs v)"

definition indexOf :: "string \<Rightarrow> string \<Rightarrow> int" where
  "indexOf s v = indexOf_from 0 s v"

section \<open>The engine: class TicTacToeGame\<close>

text \<open>The constructor: no moves, status \<^verbatim>\<open>WAITING_TO_START\<close>, empty roster.\<close>

definition new_game :: "string \<Rightarrow> TicTacToeGame" where
  "new_game gid =
     \<lparr>game_id = gid, players = [],
      state = \<lparr>moves = [], status = WAITING_TO_START,
               x_slot = None, o_slot = None, winner = None\<rparr>\<rparr>"

text \<open>\<^verbatim>\<open>_checkForWin(gamePiece, row, col)\<close>, reading \<^verbatim>\<open>this.state.moves\<close>.\<close>

definition checkForWin :: "TicTacToeGameState \<Rightarrow> GamePiece \<Rightarrow> nat \<Rightarrow> nat \<Rightarrow> bool" where
  "checkForWin st piece r c =
     (let checkRow =
            (length (filter (\<lambda>m. row m = r \<and> gamePiece m = piece) (moves st)) = 3);
          checkCol =
            (length (filter (\<lambda>m. col m = c \<and> gamePiece m = piece) (moves st)) = 3);
          checkDiagonal1 =
            (r = c \<and>
             length (filter (\<lambda>m. row m = col m \<and> gamePiece m = piece) (moves st)) = 3);
          checkDiagonal2 =
            (r + c = 2 \<and>
             length (filter (\<lambda>m. row m + col m = 2 \<and> gamePiece m = piece) (moves st)) = 3)
      in checkRow \<or> checkCol \<or> checkDiagonal1 \<or> checkDiagonal2)"

text \<open>
  \<^verbatim>\<open>applyMove(move)\<close>. The four checks are in the source's order; each throws an
  \<^verbatim>\<open>Error\<close> whose message is a quoted constant name.
\<close>

definition applyMove :: "TicTacToeGame \<Rightarrow> GameMove \<Rightarrow> thrown + TicTacToeGame" where
  "applyMove g mv =
     (case find (\<lambda>player. player_id player = playerID mv) (players g) of
        None \<Rightarrow> Inl (ErrorObject ''PLAYER_NOT_IN_GAME_MESSAGE'')
      | Some currentPlayer \<Rightarrow>
          if \<not> truthy (x_slot (state g)) \<or> \<not> truthy (o_slot (state g))
             \<or> status (state g) \<noteq> IN_PROGRESS
          then Inl (ErrorObject ''GAME_NOT_IN_PROGRESS_MESSAGE'')
          else if Some (player_id currentPlayer) \<noteq> x_slot (state g)
                  \<and> Some (player_id currentPlayer) \<noteq> o_slot (state g)
          then Inl (ErrorObject ''MOVE_NOT_YOUR_TURN_MESSAGE'')
          else if list_ex (\<lambda>existingMove. row existingMove = row (move mv)
                                         \<and> col existingMove = col (move mv))
                          (moves (state g))
          then Inl (ErrorObject ''BOARD_POSITION_NOT_EMPTY_MESSAGE'')
          else
            let piece = (if Some (player_id currentPlayer) = x_slot (state g)
                         then PieceX else PieceO);
                updatedMoves = moves (state g)
                  @ [\<lparr>gamePiece = piece, row = row (move mv), col = col (move mv)\<rparr>];
                st = (state g)\<lparr>moves := updatedMoves\<rparr>
            in if checkForWin st piece (row (move mv)) (col (move mv))
               then Inr (g\<lparr>state := st\<lparr>status := OVER,
                                        winner := Some (player_id currentPlayer)\<rparr>\<rparr>)
               else if length (moves st) = 9
               then Inr (g\<lparr>state := st\<lparr>status := OVER, winner := None\<rparr>\<rparr>)
               else Inr (g\<lparr>state := st\<rparr>))"

text \<open>\<^verbatim>\<open>_join(player)\<close> of class \<^verbatim>\<open>TicTacToeGame\<close>.\<close>

definition TicTacToeGame_join :: "TicTacToeGame \<Rightarrow> Player \<Rightarrow> thrown + TicTacToeGame" where
  "TicTacToeGame_join g player =
     (if length (players g) \<ge> 2 then Inl (ErrorObject ''GAME_FULL_MESSAGE'')
      else if list_ex (\<lambda>p. player_id p = player_id player) (players g)
      then Inl (ErrorObject ''PLAYER_ALREADY_IN_GAME_MESSAGE'')
      else
        let st1 = (if \<not> truthy (x_slot (state g))
                   then (state g)\<lparr>x_slot := Some (player_id player)\<rparr>
                   else if \<not> truthy (o_slot (state g))
                   then (state g)\<lparr>o_slot := Some (player_id player)\<rparr>
                   else state g);
            st2 = (if truthy (x_slot st1) \<and> truthy (o_slot st1)
                   then st1\<lparr>status := IN_PROGRESS\<rparr> else st1)
        in Inr (g\<lparr>state := st2\<rparr>))"

text \<open>\<^verbatim>\<open>_leave(player)\<close> of class \<^verbatim>\<open>TicTacToeGame\<close>.\<close>

definition TicTacToeGame_leave :: "TicTacToeGame \<Rightarrow> Player \<Rightarrow> thrown + TicTacToeGame" where
  "TicTacToeGame_leave g player =
     (case findIndex (\<lambda>p. player_id p = player_id player) (players g) of
        None \<Rightarrow> Inl (ErrorObject ''PLAYER_NOT_IN_GAME_MESSAGE'')
      | Some playerIndex \<Rightarrow>
          let ps = splice1 playerIndex (players g) in
          if length ps = 1
          then let remainingPlayer = ps ! 0
               in Inr (g\<lparr>players := ps,
                         state := (state g)\<lparr>status := OVER,
                                            winner := Some (player_id remainingPlayer)\<rparr>\<rparr>)
          else Inr (g\<lparr>players := ps,
                      state := (state g)\<lparr>status := WAITING_TO_START\<rparr>\<rparr>))"

text \<open>
  Modelled from the spec: the public \<^verbatim>\<open>join\<close> and \<^verbatim>\<open>leave\<close> of the base class
  \<^verbatim>\<open>Game\<close> (file \<^verbatim>\<open>./Game\<close>, not among the sources). The spec's roster holds the
  players currently joined: a join that the engine accepts puts the player on the roster
  after \<^verbatim>\<open>_join\<close> has run, and a leave takes the player off it.
\<close>

definition Game_join :: "TicTacToeGame \<Rightarrow> Player \<Rightarrow> thrown + TicTacToeGame" where
  "Game_join g player =
     (case TicTacToeGame_join g player of
        Inl e \<Rightarrow> Inl e
      | Inr g' \<Rightarrow> Inr (g'\<lparr>players := players g' @ [player]\<rparr>))"

definition Game_leave :: "TicTacToeGame \<Rightarrow> Player \<Rightarrow> thrown + TicTacToeGame" where
  "Game_leave g player =
     (case TicTacToeGame_leave g player of
        Inl e \<Rightarrow> Inl e
      | Inr g' \<Rightarrow>
          Inr (g'\<lparr>players := filter (\<lambda>p. player_id p \<noteq> player_id player) (players g')\<rparr>))"

section \<open>The router: class TicTacToeGameArea\<close>

text \<open>
  The message constants that \<^verbatim>\<open>handleCommand\<close> imports from
  \<^verbatim>\<open>lib/InvalidParametersError\<close> (not among the sources) are parameters.
\<close>

record messages =
  PLAYER_ALREADY_IN_GAME_MESSAGE :: string
  GAME_FULL_MESSAGE :: string
  GAME_NOT_IN_PROGRESS_MESSAGE :: string
  INVALID_COMMAND_MESSAGE :: string
  PLAYER_NOT_IN_GAME_MESSAGE :: string

text \<open>
  An \<^verbatim>\<open>InteractableCommand\<close>, a union tagged by \<^verbatim>\<open>type\<close>: \<^verbatim>\<open>JoinGame\<close>,
  \<^verbatim>\<open>LeaveGame\<close> with the game it addresses, \<^verbatim>\<open>GameMove\<close> with the game it
  addresses and the move, and every other command with its tag.
\<close>

datatype InteractableCommand =
    JoinGameCommand
  | LeaveGameCommand string
  | GameMoveCommand string TicTacToeMove
  | OtherCommand string

text \<open>
  Modelled from the spec: the entry type of the history list, which the base class
  \<^verbatim>\<open>GameArea\<close> declares (not among the sources): the two participants and the
  outcome (the winner, or none for a tie).
\<close>

record GameResult =
  participants :: "string list"
  outcome :: "string option"

text \<open>
  The area object: the fields \<^verbatim>\<open>_game\<close> and \<^verbatim>\<open>_history\<close> of the base class, and
  the number of times \<^verbatim>\<open>_emitAreaChanged\<close> has been called.
\<close>

record TicTacToeGameArea =
  game :: "TicTacToeGame option"
  history :: "GameResult list"
  emitted :: nat

text \<open>The body of the \<^verbatim>\<open>try\<close> block: the \<^verbatim>\<open>switch\<close>, then \<^verbatim>\<open>_emitAreaChanged\<close>.\<close>

definition handleCommand_try ::
  "messages \<Rightarrow> TicTacToeGameArea \<Rightarrow> InteractableCommand \<Rightarrow> Player
     \<Rightarrow> thrown + TicTacToeGameArea" where
  "handleCommand_try msgs area command player =
     (case
        (case command of
           JoinGameCommand \<Rightarrow>
             (case game area of
                None \<Rightarrow> Inr area
              | Some g \<Rightarrow>
                  (case Game_join g player of
                     Inl e \<Rightarrow> Inl e
                   | Inr g' \<Rightarrow> Inr (area\<lparr>game := Some g'\<rparr>)))
         | LeaveGameCommand gid \<Rightarrow>
             (case game area of
                None \<Rightarrow> Inl (ErrorObject (PLAYER_NOT_IN_GAME_MESSAGE msgs))
              | Some g \<Rightarrow>
                  if indexOf (game_id g) (player_id player) = - 1
                  then Inl (ErrorObject (PLAYER_NOT_IN_GAME_MESSAGE msgs))
                  else (case Game_leave g player of
                          Inl e \<Rightarrow> Inl e
                        | Inr g' \<Rightarrow> Inr (area\<lparr>game := Some g'\<rparr>)))
         | GameMoveCommand gid m \<Rightarrow>
             (case game area of
                None \<Rightarrow> Inl (ErrorObject (GAME_NOT_IN_PROGRESS_MESSAGE msgs))
              | Some g \<Rightarrow>
                  if status (state g) \<noteq> IN_PROGRESS
                  then Inl (ErrorObject (GAME_NOT_IN_PROGRESS_MESSAGE msgs))
                  else (case applyMove g \<lparr>playerID = player_id player,
                                          gameID = ''GameMove'', move = m\<rparr> of
                          Inl e \<Rightarrow> Inl e
                        | Inr g' \<Rightarrow> Inr (area\<lparr>game := Some g'\<rparr>)))
         | OtherCommand t \<Rightarrow> Inl (ErrorObject (INVALID_COMMAND_MESSAGE msgs)))
      of
        Inl e \<Rightarrow> Inl e
      | Inr area' \<Rightarrow> Inr (area'\<lparr>emitted := Suc (emitted area')\<rparr>))"

text \<open>
  \<^verbatim>\<open>handleCommand(command, player)\<close>: the \<^verbatim>\<open>try\<close> block and its \<^verbatim>\<open>catch\<close>,
  which compares the caught value with four message constants by \<^verbatim>\<open>===\<close>.
\<close>

definition handleCommand ::
  "messages \<Rightarrow> TicTacToeGameArea \<Rightarrow> InteractableCommand \<Rightarrow> Player
     \<Rightarrow> thrown + TicTacToeGameArea" where
  "handleCommand msgs area command player =
     (case handleCommand_try msgs area command player of
        Inr area' \<Rightarrow> Inr area'
      | Inl error \<Rightarrow>
          if strict_equals error (PLAYER_ALREADY_IN_GAME_MESSAGE msgs)
             \<or> strict_equals error (GAME_FULL_MESSAGE msgs)
             \<or> strict_equals error (GAME_NOT_IN_PROGRESS_MESSAGE msgs)
             \<or> strict_equals error (INVALID_COMMAND_MESSAGE msgs)
          then Inl (ErrorObject (to_message error))
          else Inl (ErrorObject ''An unexpected error occurred.''))"

text \<open>Running a list of engine operations and of commands, stopping at the first throw.\<close>

datatype operation = Join Player | Leave Player | Move GameMove

fun step :: "TicTacToeGame \<Rightarrow> operation \<Rightarrow> thrown + TicTacToeGame" where
  "step g (Join p) = Game_join g p"
| "step g (Leave p) = Game_leave g p"
| "step g (Move mv) = applyMove g mv"

fun run :: "TicTacToeGame \<Rightarrow> operation list \<Rightarrow> thrown + TicTacToeGame" where
  "run g [] = Inr g"
| "run g (opn # ops) = (case step g opn of Inl e \<Rightarrow> Inl e | Inr g' \<Rightarrow> run g' ops)"

fun handleCommands ::
  "messages \<Rightarrow> TicTacToeGameArea \<Rightarrow> (InteractableCommand \<times> Player) list
     \<Rightarrow> thrown + TicTacToeGameArea" where
  "handleCommands msgs area [] = Inr area"
| "handleCommands msgs area ((command, player) # cs) =
     (case handleCommand msgs area command player of
        Inl e \<Rightarrow> Inl e
      | Inr area' \<Rightarrow> handleCommands msgs area' cs)"

text \<open>Two players and the message texts used in the examples below.\<close>

definition alice :: Player where
  "alice = \<lparr>player_id = ''alice'', userName = ''Alice''\<rparr>"

definition bob :: Player where
  "bob = \<lparr>player_id = ''bob'', userName = ''Bob''\<rparr>"

definition carol :: Player where
  "carol = \<lparr>player_id = ''carol'', userName = ''Carol''\<rparr>"

definition example_messages :: messages where
  "example_messages =
     \<lparr>PLAYER_ALREADY_IN_GAME_MESSAGE = ''Player is already in this game'',
      GAME_FULL_MESSAGE = ''Game is full'',
      GAME_NOT_IN_PROGRESS_MESSAGE = ''Game is not in progress'',
      INVALID_COMMAND_MESSAGE = ''Invalid command'',
      PLAYER_NOT_IN_GAME_MESSAGE = ''Player is not in this game''\<rparr>"

definition move_at :: "Player \<Rightarrow> nat \<Rightarrow> nat \<Rightarrow> GameMove" where
  "move_at p r c = \<lparr>playerID = player_id p, gameID = ''g'',
              move = \<lparr>gamePiece = PieceX, row = r, col = c\<rparr>\<rparr>"

text \<open>
  Three game states used below: alice one move from completing the top row; a board
  one move from a tie; and a finished game that alice has left and joined again.
\<close>

definition scenario_a :: TicTacToeGame where
  "scenario_a =
     \<lparr>game_id = ''g1'', players = [alice, bob],
      state = \<lparr>moves = [\<lparr>gamePiece = PieceX, row = 0, col = 0\<rparr>,
                         \<lparr>gamePiece = PieceO, row = 1, col = 1\<rparr>,
                         \<lparr>gamePiece = PieceX, row = 0, col = 1\<rparr>,
                         \<lparr>gamePiece = PieceO, row = 1, col = 0\<rparr>],
               status = IN_PROGRESS, x_slot = Some ''alice'', o_slot = Some ''bob'',
               winner = None\<rparr>\<rparr>"

definition scenario_tie :: TicTacToeGame where
  "scenario_tie =
     \<lparr>game_id = ''g1'', players = [alice, bob],
      state = \<lparr>moves = [\<lparr>gamePiece = PieceX, row = 0, col = 0\<rparr>,
                         \<lparr>gamePiece = PieceO, row = 0, col = 1\<rparr>,
                         \<lparr>gamePiece = PieceX, row = 0, col = 2\<rparr>,
                         \<lparr>gamePiece = PieceO, row = 1, col = 1\<rparr>,
                         \<lparr>gamePiece = PieceX, row = 1, col = 0\<rparr>,
                         \<lparr>gamePiece = PieceO, row = 1, col = 2\<rparr>,
                         \<lparr>gamePiece = PieceX, row = 2, col = 1\<rparr>,
                         \<lparr>gamePiece = PieceO, row = 2, col = 0\<rparr>],
               status = IN_PROGRESS, x_slot = Some ''alice'', o_slot = Some ''bob'',
               winner = None\<rparr>\<rparr>"

definition resumed_game :: TicTacToeGame where
  "resumed_game =
     \<lparr>game_id = ''g1'', players = [alice],
      state = \<lparr>moves = [\<lparr>gamePiece = PieceX, row = 0, col = 0\<rparr>,
                         \<lparr>gamePiece = PieceO, row = 1, col = 1\<rparr>,
                         \<lparr>gamePiece = PieceX, row = 0, col = 1\<rparr>,
                         \<lparr>gamePiece = PieceO, row = 1, col = 0\<rparr>,
                         \<lparr>gamePiece = PieceX, row = 0, col = 2\<rparr>],
               status = IN_PROGRESS, x_slot = Some ''alice'', o_slot = Some ''bob'',
               winner = Some ''bob''\<rparr>\<rparr>"

section \<open>The board, in the words of the specification\<close>

text \<open>
  The definitions of this section follow the specification, not the code: a cell is a
  pair (row, column); the eight winning lines are the three rows, the three columns and
  the two diagonals; a piece holds a cell when a recorded move of that piece is on it.
\<close>

definition cell_of :: "TicTacToeMove \<Rightarrow> nat \<times> nat" where
  "cell_of m = (row m, col m)"

definition holds :: "TicTacToeMove list \<Rightarrow> GamePiece \<Rightarrow> nat \<times> nat \<Rightarrow> bool" where
  "holds ms piece cell = list_ex (\<lambda>m. cell_of m = cell \<and> gamePiece m = piece) ms"

definition winning_lines :: "(nat \<times> nat) list list" where
  "winning_lines =
     [[(0, 0), (0, 1), (0, 2)], [(1, 0), (1, 1), (1, 2)], [(2, 0), (2, 1), (2, 2)],
      [(0, 0), (1, 0), (2, 0)], [(0, 1), (1, 1), (2, 1)], [(0, 2), (1, 2), (2, 2)],
      [(0, 0), (1, 1), (2, 2)], [(0, 2), (1, 1), (2, 0)]]"

definition holds_line :: "TicTacToeMove list \<Rightarrow> GamePiece \<Rightarrow> (nat \<times> nat) list \<Rightarrow> bool" where
  "holds_line ms piece line = list_all (holds ms piece) line"

text \<open>The piece holds all three cells of some winning line.\<close>

definition wins_any :: "TicTacToeMove list \<Rightarrow> GamePiece \<Rightarrow> bool" where
  "wins_any ms piece = list_ex (holds_line ms piece) winning_lines"

text \<open>The piece holds all three cells of a winning line that passes through the cell.\<close>

definition wins_through :: "TicTacToeMove list \<Rightarrow> GamePiece \<Rightarrow> nat \<times> nat \<Rightarrow> bool" where
  "wins_through ms piece cell =
     list_ex (\<lambda>line. List.member line cell \<and> holds_line ms piece line) winning_lines"

definition all_cells :: "(nat \<times> nat) list" where
  "all_cells = [(0, 0), (0, 1), (0, 2), (1, 0), (1, 1), (1, 2), (2, 0), (2, 1), (2, 2)]"

text \<open>All nine cells are filled.\<close>

definition board_full :: "TicTacToeMove list \<Rightarrow> bool" where
  "board_full ms = list_all (\<lambda>cell. list_ex (\<lambda>m. cell_of m = cell) ms) all_cells"

text \<open>
  A board as the engine builds it: no two recorded moves on the same cell, and every
  move on the 3 by 3 grid (the type of a grid position is 0, 1 or 2).
\<close>

definition valid_board :: "TicTacToeMove list \<Rightarrow> bool" where
  "valid_board ms =
     (distinct (map cell_of ms) \<and> list_all (\<lambda>m. row m < 3 \<and> col m < 3) ms)"

section \<open>Auxiliary facts\<close>

lemma findIndex_Some:
  "list_ex P xs \<Longrightarrow> \<exists>i. findIndex P xs = Some i \<and> i < length xs \<and> P (xs ! i)"
  by (induction xs) auto

lemma findIndex_None: "\<not> list_ex P xs \<Longrightarrow> findIndex P xs = None"
  by (induction xs) auto

lemma length_splice1: "i < length xs \<Longrightarrow> length (splice1 i xs) = length xs - 1"
  by (simp add: splice1_def)

text \<open>Every failure of the engine is an \<^verbatim>\<open>Error\<close> object, never a bare string.\<close>

lemma engine_throws_Error:
  "TicTacToeGame_join g p = Inl e \<Longrightarrow> \<exists>m. e = ErrorObject m"
  "TicTacToeGame_leave g p = Inl e \<Longrightarrow> \<exists>m. e = ErrorObject m"
  "applyMove g mv = Inl e \<Longrightarrow> \<exists>m. e = ErrorObject m"
  by (auto simp: TicTacToeGame_join_def TicTacToeGame_leave_def applyMove_def Let_def
           split: if_splits option.splits)

lemma wrappers_throw_Error:
  "Game_join g p = Inl e \<Longrightarrow> \<exists>m. e = ErrorObject m"
  "Game_leave g p = Inl e \<Longrightarrow> \<exists>m. e = ErrorObject m"
  by (auto simp: Game_join_def Game_leave_def split: sum.splits dest: engine_throws_Error)

lemma handleCommand_try_throws_Error:
  "handleCommand_try msgs area command player = Inl e \<Longrightarrow> \<exists>m. e = ErrorObject m"
  by (auto simp: handleCommand_try_def
           split: InteractableCommand.splits option.splits sum.splits if_splits
           dest: wrappers_throw_Error engine_throws_Error)

text \<open>
  So the comparisons of the \<^verbatim>\<open>catch\<close> block are all false, and whatever fails,
  \<^verbatim>\<open>handleCommand\<close> throws the same generic error.
\<close>

lemma handleCommand_failure_is_generic:
  "handleCommand msgs area command player = Inl e \<Longrightarrow>
     e = ErrorObject ''An unexpected error occurred.''"
  by (auto simp: handleCommand_def split: sum.splits if_splits
           dest!: handleCommand_try_throws_Error)

text \<open>\<^verbatim>\<open>handleCommand\<close> never writes the history.\<close>

lemma handleCommand_history:
  "handleCommand msgs area command player = Inr area' \<Longrightarrow> history area' = history area"
  by (auto simp: handleCommand_def handleCommand_try_def
           split: sum.splits if_splits InteractableCommand.splits option.splits)

lemma handleCommand_other:
  "handleCommand msgs area (OtherCommand t) player
     = Inl (ErrorObject ''An unexpected error occurred.'')"
  by (simp add: handleCommand_def handleCommand_try_def)

lemma handleCommand_no_game_join:
  "game area = None \<Longrightarrow>
   handleCommand msgs area JoinGameCommand player
     = Inr (area\<lparr>emitted := Suc (emitted area)\<rparr>)"
  by (simp add: handleCommand_def handleCommand_try_def)

text \<open>
  Counting the moves of a line: on a board with no cell played twice, the moves that
  lie on a line and satisfy \<open>Q\<close> number as many as the line has cells exactly when
  every cell of the line carries such a move.
\<close>

lemma count_line:
  assumes d: "distinct (map cell_of ms)"
    and sub: "\<And>m. m \<in> set ms \<Longrightarrow> L (cell_of m) \<Longrightarrow> cell_of m \<in> set cs"
    and onL: "\<And>c. c \<in> set cs \<Longrightarrow> L c"
    and cs: "distinct cs" "length cs = n"
  shows "(length (filter (\<lambda>m. L (cell_of m) \<and> Q m) ms) = n)
         = (\<forall>c\<in>set cs. \<exists>m\<in>set ms. cell_of m = c \<and> Q m)"
proof -
  let ?F = "filter (\<lambda>m. L (cell_of m) \<and> Q m) ms"
  let ?S = "set (map cell_of ?F)"
  have dF: "distinct (map cell_of ?F)"
    using d by (rule distinct_map_filter)
  have len: "length ?F = card ?S"
    using distinct_card [OF dF] by simp
  have cardcs: "card (set cs) = n"
    using cs distinct_card by blast
  have S_sub: "?S \<subseteq> set cs"
    using sub by auto
  show ?thesis
  proof
    assume "length ?F = n"
    with len cardcs have "card ?S = card (set cs)" by simp
    with S_sub have "?S = set cs"
      by (simp add: card_subset_eq)
    show "\<forall>c\<in>set cs. \<exists>m\<in>set ms. cell_of m = c \<and> Q m"
    proof
      fix c assume "c \<in> set cs"
      with \<open>?S = set cs\<close> have "c \<in> ?S" by simp
      then show "\<exists>m\<in>set ms. cell_of m = c \<and> Q m" by auto
    qed
  next
    assume all: "\<forall>c\<in>set cs. \<exists>m\<in>set ms. cell_of m = c \<and> Q m"
    have "set cs \<subseteq> ?S"
    proof
      fix c assume c: "c \<in> set cs"
      with all obtain m where "m \<in> set ms" "cell_of m = c" "Q m" by blast
      with onL [OF c] show "c \<in> ?S" by force
    qed
    with S_sub have "?S = set cs" by blast
    with len cardcs show "length ?F = n" by simp
  qed
qed

lemma valid_boardD:
  "valid_board ms \<Longrightarrow> distinct (map cell_of ms)"
  "valid_board ms \<Longrightarrow> m \<in> set ms \<Longrightarrow> row m < 3 \<and> col m < 3"
  by (auto simp: valid_board_def list_all_iff)

lemma lt3: "(n::nat) < 3 \<longleftrightarrow> n = 0 \<or> n = 1 \<or> n = 2"
  by auto

lemma holds_iff: "holds ms piece c = (\<exists>m\<in>set ms. cell_of m = c \<and> gamePiece m = piece)"
  by (simp add: holds_def list_ex_iff)

lemma row_count:
  assumes "valid_board ms"
  shows "(length (filter (\<lambda>m. row m = r \<and> gamePiece m = piece) ms) = 3)
         = (holds ms piece (r, 0) \<and> holds ms piece (r, 1) \<and> holds ms piece (r, 2))"
proof -
  have "(length (filter (\<lambda>m. fst (cell_of m) = r \<and> gamePiece m = piece) ms) = 3)
        = (\<forall>c\<in>set [(r, 0), (r, 1), (r, 2)]. \<exists>m\<in>set ms. cell_of m = c \<and> gamePiece m = piece)"
  proof (rule count_line)
    fix m assume "m \<in> set ms" "fst (cell_of m) = r"
    with valid_boardD(2) [OF assms, of m]
    show "cell_of m \<in> set [(r, 0), (r, 1), (r, 2)]"
      by (auto simp: cell_of_def lt3)
  qed (use assms in \<open>auto dest: valid_boardD(1)\<close>)
  then show ?thesis
    by (simp add: holds_iff cell_of_def)
qed

lemma col_count:
  assumes "valid_board ms"
  shows "(length (filter (\<lambda>m. col m = c \<and> gamePiece m = piece) ms) = 3)
         = (holds ms piece (0, c) \<and> holds ms piece (1, c) \<and> holds ms piece (2, c))"
proof -
  have "(length (filter (\<lambda>m. snd (cell_of m) = c \<and> gamePiece m = piece) ms) = 3)
        = (\<forall>k\<in>set [(0, c), (1, c), (2, c)]. \<exists>m\<in>set ms. cell_of m = k \<and> gamePiece m = piece)"
  proof (rule count_line)
    fix m assume "m \<in> set ms" "snd (cell_of m) = c"
    with valid_boardD(2) [OF assms, of m]
    show "cell_of m \<in> set [(0, c), (1, c), (2, c)]"
      by (auto simp: cell_of_def lt3)
  qed (use assms in \<open>auto dest: valid_boardD(1)\<close>)
  then show ?thesis
    by (simp add: holds_iff cell_of_def)
qed

lemma diagonal1_count:
  assumes "valid_board ms"
  shows "(length (filter (\<lambda>m. row m = col m \<and> gamePiece m = piece) ms) = 3)
         = (holds ms piece (0, 0) \<and> holds ms piece (1, 1) \<and> holds ms piece (2, 2))"
proof -
  have "(length (filter (\<lambda>m. (\<lambda>k. fst k = snd k) (cell_of m) \<and> gamePiece m = piece) ms) = 3)
        = (\<forall>k\<in>set [(0, 0), (1, 1), (2, 2)]. \<exists>m\<in>set ms. cell_of m = k \<and> gamePiece m = piece)"
  proof (rule count_line)
    fix m assume "m \<in> set ms" "fst (cell_of m) = snd (cell_of m)"
    with valid_boardD(2) [OF assms, of m]
    show "cell_of m \<in> set [(0, 0), (1, 1), (2, 2)]"
      by (auto simp: cell_of_def lt3)
  qed (use assms in \<open>auto dest: valid_boardD(1)\<close>)
  then show ?thesis
    by (simp add: holds_iff cell_of_def)
qed

lemma diagonal2_count:
  assumes "valid_board ms"
  shows "(length (filter (\<lambda>m. row m + col m = 2 \<and> gamePiece m = piece) ms) = 3)
         = (holds ms piece (0, 2) \<and> holds ms piece (1, 1) \<and> holds ms piece (2, 0))"
proof -
  have "(length (filter (\<lambda>m. (\<lambda>k. fst k + snd k = 2) (cell_of m) \<and> gamePiece m = piece) ms) = 3)
        = (\<forall>k\<in>set [(0, 2), (1, 1), (2, 0)]. \<exists>m\<in>set ms. cell_of m = k \<and> gamePiece m = piece)"
  proof (rule count_line)
    fix m assume "m \<in> set ms" "fst (cell_of m) + snd (cell_of m) = 2"
    with valid_boardD(2) [OF assms, of m]
    show "cell_of m \<in> set [(0, 2), (1, 1), (2, 0)]"
      by (auto simp: cell_of_def lt3)
  qed (use assms in \<open>auto dest: valid_boardD(1)\<close>)
  then show ?thesis
    by (simp add: holds_iff cell_of_def)
qed

lemma checkForWin_iff:
  assumes "valid_board (moves st)" and "r < 3" and "c < 3"
  shows "checkForWin st piece r c = wins_through (moves st) piece (r, c)"
proof -
  from assms(2,3) consider
      "r = 0 \<and> c = 0" | "r = 0 \<and> c = 1" | "r = 0 \<and> c = 2"
    | "r = 1 \<and> c = 0" | "r = 1 \<and> c = 1" | "r = 1 \<and> c = 2"
    | "r = 2 \<and> c = 0" | "r = 2 \<and> c = 1" | "r = 2 \<and> c = 2"
    by (auto simp: lt3)
  then show ?thesis
    by cases
      (auto simp: checkForWin_def Let_def wins_through_def winning_lines_def holds_line_def
         row_count [OF assms(1)] col_count [OF assms(1)]
         diagonal1_count [OF assms(1)] diagonal2_count [OF assms(1)])
qed

lemma full_count:
  assumes "valid_board ms"
  shows "(length ms = 9) = board_full ms"
proof -
  have "(length (filter (\<lambda>m. (\<lambda>k. True) (cell_of m) \<and> True) ms) = 9)
        = (\<forall>k\<in>set all_cells. \<exists>m\<in>set ms. cell_of m = k \<and> True)"
  proof (rule count_line)
    fix m assume "m \<in> set ms"
    with valid_boardD(2) [OF assms, of m]
    show "cell_of m \<in> set all_cells"
      by (auto simp: cell_of_def lt3 all_cells_def)
  qed (use assms in \<open>auto dest: valid_boardD(1) simp: all_cells_def\<close>)
  then show ?thesis
    by (simp add: board_full_def list_all_iff list_ex_iff)
qed

lemma wins_through_any: "wins_through ms piece cell \<Longrightarrow> wins_any ms piece"
  by (auto simp: wins_through_def wins_any_def list_ex_iff)

lemma find_SomeD: "find P xs = Some x \<Longrightarrow> P x"
  by (auto simp: find_Some_iff)

lemma valid_board_append:
  assumes "valid_board ms" and "r < 3" and "c < 3"
    and "\<not> list_ex (\<lambda>m. row m = r \<and> col m = c) ms"
  shows "valid_board (ms @ [\<lparr>gamePiece = piece, row = r, col = c\<rparr>])"
  using assms by (auto simp: valid_board_def cell_of_def list_ex_iff)

lemma applyMove_Inr:
  assumes "applyMove g mv = Inr g'"
  shows "\<exists>piece ms'.
           piece = (if Some (playerID mv) = x_slot (state g) then PieceX else PieceO)
         \<and> ms' = moves (state g)
                   @ [\<lparr>gamePiece = piece, row = row (move mv), col = col (move mv)\<rparr>]
         \<and> \<not> list_ex (\<lambda>m. row m = row (move mv) \<and> col m = col (move mv)) (moves (state g))
         \<and> status (state g) = IN_PROGRESS
         \<and> g' = (if checkForWin ((state g)\<lparr>moves := ms'\<rparr>) piece (row (move mv)) (col (move mv))
                 then g\<lparr>state := (state g)\<lparr>moves := ms', status := OVER,
                                           winner := Some (playerID mv)\<rparr>\<rparr>
                 else if length ms' = 9
                 then g\<lparr>state := (state g)\<lparr>moves := ms', status := OVER, winner := None\<rparr>\<rparr>
                 else g\<lparr>state := (state g)\<lparr>moves := ms'\<rparr>\<rparr>)"
  using assms
  by (auto simp: applyMove_def Let_def split: option.splits if_splits dest!: find_SomeD)

lemma applyMove_valid_board:
  assumes "valid_board (moves (state g))" and "row (move mv) < 3" and "col (move mv) < 3"
    and "applyMove g mv = Inr g'"
  shows "valid_board (moves (state g'))"
proof -
  from applyMove_Inr [OF assms(4)] obtain piece ms' where
    ms': "ms' = moves (state g)
            @ [\<lparr>gamePiece = piece, row = row (move mv), col = col (move mv)\<rparr>]"
    and free: "\<not> list_ex (\<lambda>m. row m = row (move mv) \<and> col m = col (move mv)) (moves (state g))"
    and g': "moves (state g') = ms'"
    by (auto split: if_splits)
  from valid_board_append [OF assms(1,2,3) free] ms' g' show ?thesis by simp
qed

text \<open>
  On a roster without repeated identifiers the public leave changes nothing that
  \<^verbatim>\<open>_leave\<close> has not already done.
\<close>

lemma filter_splice1:
  "distinct (map f xs) \<Longrightarrow> findIndex (\<lambda>q. f q = v) xs = Some i \<Longrightarrow>
     filter (\<lambda>q. f q \<noteq> v) (splice1 i xs) = splice1 i xs"
proof (induction xs arbitrary: i)
  case Nil
  then show ?case by simp
next
  case (Cons y ys)
  show ?case
  proof (cases "f y = v")
    case True
    with Cons.prems have "i = 0" and "v \<notin> f ` set ys" by auto
    then show ?thesis
      by (auto simp: splice1_def filter_id_conv)
  next
    case False
    with Cons.prems obtain j where j: "findIndex (\<lambda>q. f q = v) ys = Some j" "i = Suc j"
      by auto
    with Cons.IH [of j] Cons.prems(1) False show ?thesis
      by (simp add: splice1_def)
  qed
qed

lemma Game_leave_distinct:
  assumes "distinct (map player_id (players g))"
  shows "Game_leave g p = TicTacToeGame_leave g p"
proof (cases "findIndex (\<lambda>q. player_id q = player_id p) (players g)")
  case None
  then show ?thesis
    by (simp add: Game_leave_def TicTacToeGame_leave_def)
next
  case (Some i)
  from filter_splice1 [OF assms Some] Some show ?thesis
    by (simp add: Game_leave_def TicTacToeGame_leave_def Let_def)
qed

section \<open>The roster and the status\<close>

text \<open>
  Claim C1. From a freshly constructed game, after any sequence of join, leave and
  applyMove, status \<^verbatim>\<open>IN_PROGRESS\<close> should mean that the roster holds exactly two
  players. The engine does not keep this: \<^verbatim>\<open>_leave\<close> takes the player off the roster
  but leaves the slot \<^verbatim>\<open>x\<close> filled, so after join, leave, join the second joiner fills
  slot \<^verbatim>\<open>o\<close> and \<^verbatim>\<open>_join\<close> sets \<^verbatim>\<open>IN_PROGRESS\<close> with one player on the roster.
\<close>

theorem in_progress_with_one_player:
  "run (new_game ''g1'') [Join alice, Leave alice, Join bob] =
     Inr \<lparr>game_id = ''g1'', players = [bob],
          state = \<lparr>moves = [], status = IN_PROGRESS, x_slot = Some ''alice'',
                   o_slot = Some ''bob'', winner = None\<rparr>\<rparr>"
  by code_simp

section \<open>Joining\<close>

text \<open>
  The two guards of \<^verbatim>\<open>_join\<close> in their order: a roster of two or more players
  refuses every join with the first error, and only a shorter roster reaches the test
  for a player who is already on it.
\<close>

lemma join_guards:
  "(length (players g) \<ge> 2 \<longrightarrow>
      TicTacToeGame_join g p = Inl (ErrorObject ''GAME_FULL_MESSAGE'')
      \<and> Game_join g p = Inl (ErrorObject ''GAME_FULL_MESSAGE''))
   \<and> (length (players g) < 2 \<and> list_ex (\<lambda>q. player_id q = player_id p) (players g) \<longrightarrow>
      TicTacToeGame_join g p = Inl (ErrorObject ''PLAYER_ALREADY_IN_GAME_MESSAGE'')
      \<and> Game_join g p = Inl (ErrorObject ''PLAYER_ALREADY_IN_GAME_MESSAGE''))"
  by (simp add: TicTacToeGame_join_def Game_join_def)

text \<open>
  Claim C4. A join by a player who is already on the roster should fail with the
  already-in-game error whatever the state of the game, also on a full roster, and a
  join by a third player on a full roster should fail with the game-full error. The
  engine tests the size of the roster first, so alice's second join on the full roster
  is refused as game-full; and the error it throws carries the quoted name of the
  message constant, not the constant: neither alice nor a third player, carol, gets an
  error whose message is the already-in-game or the game-full message.
\<close>

theorem duplicate_join_on_full_roster:
  "run (new_game ''g1'') [Join alice, Join bob, Join alice]
     = Inl (ErrorObject ''GAME_FULL_MESSAGE'')
   \<and> ErrorObject ''GAME_FULL_MESSAGE''
       \<noteq> ErrorObject (PLAYER_ALREADY_IN_GAME_MESSAGE example_messages)
   \<and> ErrorObject ''GAME_FULL_MESSAGE'' \<noteq> ErrorObject ''PLAYER_ALREADY_IN_GAME_MESSAGE''
   \<and> run (new_game ''g1'') [Join alice, Join bob, Join carol]
     = Inl (ErrorObject ''GAME_FULL_MESSAGE'')
   \<and> ErrorObject ''GAME_FULL_MESSAGE'' \<noteq> ErrorObject (GAME_FULL_MESSAGE example_messages)"
  by code_simp

text \<open>
  On a game with an empty roster and both slots unset, as a freshly constructed game
  is, two joins by players with distinct, non-empty identifiers both succeed: the first
  joiner gets slot \<^verbatim>\<open>x\<close> and the status stays as it was, the second gets slot
  \<^verbatim>\<open>o\<close> and the status becomes \<^verbatim>\<open>IN_PROGRESS\<close>.
\<close>

lemma fresh_joins_fill_order:
  assumes "player_id a \<noteq> []" and "player_id b \<noteq> []" and "player_id a \<noteq> player_id b"
    and "players g = []"
    and "\<not> truthy (x_slot (state g))" and "\<not> truthy (o_slot (state g))"
  shows "\<exists>g1 g2. Game_join g a = Inr g1 \<and> Game_join g1 b = Inr g2
           \<and> players g1 = [a] \<and> x_slot (state g1) = Some (player_id a)
           \<and> o_slot (state g1) = o_slot (state g) \<and> status (state g1) = status (state g)
           \<and> players g2 = [a, b] \<and> x_slot (state g2) = Some (player_id a)
           \<and> o_slot (state g2) = Some (player_id b) \<and> status (state g2) = IN_PROGRESS"
  using assms
  by (simp add: Game_join_def TicTacToeGame_join_def Let_def)

text \<open>
  Claim C6. Of two successful joins by distinct players the first should get piece X
  and the second piece O, with the status \<^verbatim>\<open>IN_PROGRESS\<close> only after both. The
  engine does not keep this once a player has left: \<^verbatim>\<open>_leave\<close> leaves alice in slot
  \<^verbatim>\<open>x\<close>, so of the two joiners bob and carol the first, bob, gets slot \<^verbatim>\<open>o\<close>
  and the status is \<^verbatim>\<open>IN_PROGRESS\<close> after his join alone, and carol joins
  successfully and gets no slot.
\<close>

theorem stale_slot_breaks_fill_order:
  "run (new_game ''g1'') [Join alice, Leave alice, Join bob]
     = Inr \<lparr>game_id = ''g1'', players = [bob],
            state = \<lparr>moves = [], status = IN_PROGRESS, x_slot = Some ''alice'',
                     o_slot = Some ''bob'', winner = None\<rparr>\<rparr>
   \<and> run (new_game ''g1'') [Join alice, Leave alice, Join bob, Join carol]
     = Inr \<lparr>game_id = ''g1'', players = [bob, carol],
            state = \<lparr>moves = [], status = IN_PROGRESS, x_slot = Some ''alice'',
                     o_slot = Some ''bob'', winner = None\<rparr>\<rparr>"
  by code_simp

section \<open>Leaving\<close>

text \<open>
  Claim C7, as amended. A leave by a player on the roster succeeds and removes the
  first roster entry with that identifier. If exactly one player remains, the status
  becomes \<^verbatim>\<open>OVER\<close> and the winner is the remaining player, whatever the status was.
  If no player remains, the status becomes \<^verbatim>\<open>WAITING_TO_START\<close> and the winner
  field is left as it was.
\<close>

theorem leave_outcome:
  assumes "list_ex (\<lambda>q. player_id q = player_id p) (players g)"
  shows "\<exists>i g'. findIndex (\<lambda>q. player_id q = player_id p) (players g) = Some i
           \<and> TicTacToeGame_leave g p = Inr g'
           \<and> players g' = splice1 i (players g)
           \<and> moves (state g') = moves (state g)
           \<and> (length (players g') = 1 \<longrightarrow>
                status (state g') = OVER
                \<and> winner (state g') = Some (player_id (players g' ! 0)))
           \<and> (players g' = [] \<longrightarrow>
                status (state g') = WAITING_TO_START
                \<and> winner (state g') = winner (state g))"
proof -
  from findIndex_Some [OF assms] obtain i
    where i: "findIndex (\<lambda>q. player_id q = player_id p) (players g) = Some i"
    by blast
  show ?thesis
    by (cases "length (splice1 i (players g)) = 1")
       (auto simp: i TicTacToeGame_leave_def Let_def)
qed

theorem leave_outcome_witness:
  "TicTacToeGame_leave ((new_game ''g1'')\<lparr>players := [alice, bob]\<rparr>) alice
     = Inr \<lparr>game_id = ''g1'', players = [bob],
            state = \<lparr>moves = [], status = OVER, x_slot = None, o_slot = None,
                     winner = Some ''bob''\<rparr>\<rparr>
   \<and> TicTacToeGame_leave ((new_game ''g1'')\<lparr>players := [alice]\<rparr>) alice
     = Inr \<lparr>game_id = ''g1'', players = [],
            state = \<lparr>moves = [], status = WAITING_TO_START, x_slot = None, o_slot = None,
                     winner = None\<rparr>\<rparr>"
  using leave_outcome [of alice "(new_game ''g1'')\<lparr>players := [alice, bob]\<rparr>"]
        leave_outcome [of alice "(new_game ''g1'')\<lparr>players := [alice]\<rparr>"]
  by (simp add: new_game_def alice_def bob_def TicTacToeGame_leave_def splice1_def)

text \<open>
  The claim as stated fails: after alice forfeits to bob and bob leaves too, nobody
  remains, the status is \<^verbatim>\<open>WAITING_TO_START\<close>, and the winner is still bob.
\<close>

theorem stale_winner_after_last_leave:
  "run (new_game ''g1'') [Join alice, Join bob, Leave alice, Leave bob] =
     Inr \<lparr>game_id = ''g1'', players = [],
          state = \<lparr>moves = [], status = WAITING_TO_START, x_slot = Some ''alice'',
                   o_slot = Some ''bob'', winner = Some ''bob''\<rparr>\<rparr>"
  by code_simp

section \<open>Turn order\<close>

text \<open>
  Claim C3. In a game in progress a move by the player whose piece is not to move
  should fail with the not-your-turn error and leave the moves unchanged. The engine
  raises that error only for a roster member who holds neither slot; it never looks at
  whose turn it is. Here bob (piece O) moves first and the move is recorded.
\<close>

theorem out_of_turn_move_accepted:
  "run (new_game ''g1'') [Join alice, Join bob, Move (move_at bob 0 0)] =
     Inr \<lparr>game_id = ''g1'', players = [alice, bob],
          state = \<lparr>moves = [\<lparr>gamePiece = PieceO, row = 0, col = 0\<rparr>],
                   status = IN_PROGRESS, x_slot = Some ''alice'',
                   o_slot = Some ''bob'', winner = None\<rparr>\<rparr>"
  by code_simp

section \<open>The router\<close>

text \<open>
  Claim C2. A JoinGame command that arrives while the area has no game should create
  a game and join the player to it. The router calls \<^verbatim>\<open>this._game?.join(player)\<close>,
  which does nothing without a game: the command succeeds, the observers are notified,
  and there is still no game.
\<close>

theorem join_without_game_creates_nothing:
  "handleCommand example_messages \<lparr>game = None, history = [], emitted = 0\<rparr>
     JoinGameCommand alice
   = Inr \<lparr>game = None, history = [], emitted = 1\<rparr>"
  by code_simp

text \<open>
  Claim C8. A failure of the engine should reach the caller of \<^verbatim>\<open>handleCommand\<close>
  as an error of the same kind. The \<^verbatim>\<open>catch\<close> block compares the caught
  \<^verbatim>\<open>Error\<close> object with message strings, which never succeeds, so the game-full
  failure of the engine reaches the caller as the generic error.
\<close>

theorem engine_failure_replaced:
  "Game_join ((new_game ''g1'')\<lparr>players := [alice, bob]\<rparr>) carol
     = Inl (ErrorObject ''GAME_FULL_MESSAGE'')
   \<and> handleCommand example_messages
        \<lparr>game = Some ((new_game ''g1'')\<lparr>players := [alice, bob]\<rparr>), history = [], emitted = 0\<rparr>
        JoinGameCommand carol
     = Inl (ErrorObject ''An unexpected error occurred.'')"
  by code_simp

text \<open>
  Claim C9. A command that ends the game should append one entry to the history.
  \<^verbatim>\<open>handleCommand\<close> never writes the history: alice wins on the top row through
  seven successful commands, and the history is still empty.
\<close>

theorem finished_game_not_recorded:
  "handleCommands example_messages
     \<lparr>game = Some (new_game ''g1''), history = [], emitted = 0\<rparr>
     [(JoinGameCommand, alice), (JoinGameCommand, bob),
      (GameMoveCommand ''g1'' \<lparr>gamePiece = PieceX, row = 0, col = 0\<rparr>, alice),
      (GameMoveCommand ''g1'' \<lparr>gamePiece = PieceO, row = 1, col = 1\<rparr>, bob),
      (GameMoveCommand ''g1'' \<lparr>gamePiece = PieceX, row = 0, col = 1\<rparr>, alice),
      (GameMoveCommand ''g1'' \<lparr>gamePiece = PieceO, row = 1, col = 0\<rparr>, bob),
      (GameMoveCommand ''g1'' \<lparr>gamePiece = PieceX, row = 0, col = 2\<rparr>, alice)]
   = Inr \<lparr>game = Some \<lparr>game_id = ''g1'', players = [alice, bob],
            state = \<lparr>moves = [\<lparr>gamePiece = PieceX, row = 0, col = 0\<rparr>,
                               \<lparr>gamePiece = PieceO, row = 1, col = 1\<rparr>,
                               \<lparr>gamePiece = PieceX, row = 0, col = 1\<rparr>,
                               \<lparr>gamePiece = PieceO, row = 1, col = 0\<rparr>,
                               \<lparr>gamePiece = PieceX, row = 0, col = 2\<rparr>],
                     status = OVER, x_slot = Some ''alice'', o_slot = Some ''bob'',
                     winner = Some ''alice''\<rparr>\<rparr>,
          history = [], emitted = 7\<rparr>"
  by code_simp

text \<open>
  Claim C10. A command of any other type should fail with the invalid-command error,
  change nothing and notify nobody. Nothing is changed and nobody is notified, since the
  call throws; but the error thrown is the generic one, not the invalid-command one.
\<close>

theorem unknown_command_generic_failure:
  "handleCommand example_messages \<lparr>game = None, history = [], emitted = 0\<rparr>
     (OtherCommand ''ViewingAreaUpdate'') alice
   = Inl (ErrorObject ''An unexpected error occurred.'')
   \<and> ErrorObject ''An unexpected error occurred.''
     \<noteq> ErrorObject (INVALID_COMMAND_MESSAGE example_messages)"
  by code_simp

section \<open>The outcome of a move\<close>

text \<open>
  Claim C5, as amended. On a board as the engine builds it (no cell played twice, all
  moves on the 3 by 3 grid), a successful applyMove appends the move with the mover's
  piece and then: if the mover holds all three cells of a winning line through the cell
  just played, the status is \<^verbatim>\<open>OVER\<close> and the winner is the mover; otherwise, if
  all nine cells are filled, the status is \<^verbatim>\<open>OVER\<close> and there is no winner;
  otherwise the game stays in progress and the winner field is untouched. The win check
  of the code agrees with the specification's winning lines through that cell, so it
  reports a win only on a board where the mover holds a full line.
\<close>

theorem applyMove_outcome:
  assumes "valid_board (moves (state g))" and "row (move mv) < 3" and "col (move mv) < 3"
    and "applyMove g mv = Inr g'"
  shows "\<exists>piece.
           piece = (if Some (playerID mv) = x_slot (state g) then PieceX else PieceO)
         \<and> moves (state g') = moves (state g)
             @ [\<lparr>gamePiece = piece, row = row (move mv), col = col (move mv)\<rparr>]
         \<and> (if wins_through (moves (state g')) piece (row (move mv), col (move mv))
            then status (state g') = OVER \<and> winner (state g') = Some (playerID mv)
            else if board_full (moves (state g'))
            then status (state g') = OVER \<and> winner (state g') = None
            else status (state g') = IN_PROGRESS \<and> winner (state g') = winner (state g))
         \<and> (checkForWin (state g') piece (row (move mv)) (col (move mv))
              = wins_through (moves (state g')) piece (row (move mv), col (move mv)))
         \<and> (checkForWin (state g') piece (row (move mv)) (col (move mv))
              \<longrightarrow> wins_any (moves (state g')) piece)"
proof -
  define piece where "piece = (if Some (playerID mv) = x_slot (state g) then PieceX else PieceO)"
  define ms' where "ms' = moves (state g)
    @ [\<lparr>gamePiece = piece, row = row (move mv), col = col (move mv)\<rparr>]"
  define st where "st = (state g)\<lparr>moves := ms'\<rparr>"
  from applyMove_Inr [OF assms(4)] have
    free: "\<not> list_ex (\<lambda>m. row m = row (move mv) \<and> col m = col (move mv)) (moves (state g))"
    and inp: "status (state g) = IN_PROGRESS"
    and g': "g' = (if checkForWin st piece (row (move mv)) (col (move mv))
                 then g\<lparr>state := st\<lparr>status := OVER, winner := Some (playerID mv)\<rparr>\<rparr>
                 else if length ms' = 9
                 then g\<lparr>state := st\<lparr>status := OVER, winner := None\<rparr>\<rparr>
                 else g\<lparr>state := st\<rparr>)"
    by (simp_all add: piece_def ms'_def st_def)
  have vb: "valid_board (moves st)"
    using valid_board_append [OF assms(1,2,3) free] by (simp add: st_def ms'_def)
  have win: "checkForWin st piece (row (move mv)) (col (move mv))
             = wins_through ms' piece (row (move mv), col (move mv))"
    using checkForWin_iff [OF vb assms(2,3)] by (simp add: st_def)
  have full: "(length ms' = 9) = board_full ms'"
    using full_count [of ms'] vb by (simp add: st_def)
  have mv': "moves (state g') = ms'"
    by (simp add: g' st_def)
  have cw: "checkForWin (state g') piece (row (move mv)) (col (move mv))
            = checkForWin st piece (row (move mv)) (col (move mv))"
    by (simp add: g' st_def checkForWin_def)
  have "moves (state g') = moves (state g)
             @ [\<lparr>gamePiece = piece, row = row (move mv), col = col (move mv)\<rparr>]"
    using mv' by (simp add: ms'_def)
  moreover have "if wins_through (moves (state g')) piece (row (move mv), col (move mv))
            then status (state g') = OVER \<and> winner (state g') = Some (playerID mv)
            else if board_full (moves (state g'))
            then status (state g') = OVER \<and> winner (state g') = None
            else status (state g') = IN_PROGRESS \<and> winner (state g') = winner (state g)"
    unfolding mv' win [symmetric] full [symmetric]
    by (simp add: g' st_def inp)
  moreover have "checkForWin (state g') piece (row (move mv)) (col (move mv))
              = wins_through (moves (state g')) piece (row (move mv), col (move mv))"
    by (simp add: cw win mv')
  moreover have "checkForWin (state g') piece (row (move mv)) (col (move mv))
              \<longrightarrow> wins_any (moves (state g')) piece"
    using wins_through_any [of ms' piece] by (auto simp: cw win mv')
  ultimately show ?thesis
    unfolding piece_def by blast
qed

text \<open>
  Two instances: alice completes the top row and wins; alice fills the ninth cell of a
  board on which she holds no line, and the game is a tie.
\<close>

theorem applyMove_outcome_witness:
  "applyMove scenario_a (move_at alice 0 2)
     = Inr (scenario_a\<lparr>state := (state scenario_a)
              \<lparr>moves := moves (state scenario_a) @ [\<lparr>gamePiece = PieceX, row = 0, col = 2\<rparr>],
               status := OVER, winner := Some ''alice''\<rparr>\<rparr>)
   \<and> wins_through (moves (state scenario_a) @ [\<lparr>gamePiece = PieceX, row = 0, col = 2\<rparr>])
       PieceX (0, 2)
   \<and> applyMove scenario_tie (move_at alice 2 2)
     = Inr (scenario_tie\<lparr>state := (state scenario_tie)
              \<lparr>moves := moves (state scenario_tie) @ [\<lparr>gamePiece = PieceX, row = 2, col = 2\<rparr>],
               status := OVER, winner := None\<rparr>\<rparr>)
   \<and> \<not> wins_any (moves (state scenario_tie) @ [\<lparr>gamePiece = PieceX, row = 2, col = 2\<rparr>])
         PieceX
   \<and> board_full (moves (state scenario_tie) @ [\<lparr>gamePiece = PieceX, row = 2, col = 2\<rparr>])"
proof -
  have a1: "valid_board (moves (state scenario_a))" by code_simp
  have a2: "row (move (move_at alice 0 2)) < 3" by code_simp
  have a3: "col (move (move_at alice 0 2)) < 3" by code_simp
  have a4: "applyMove scenario_a (move_at alice 0 2)
     = Inr (scenario_a\<lparr>state := (state scenario_a)
              \<lparr>moves := moves (state scenario_a) @ [\<lparr>gamePiece = PieceX, row = 0, col = 2\<rparr>],
               status := OVER, winner := Some ''alice''\<rparr>\<rparr>)" by code_simp
  have t1: "valid_board (moves (state scenario_tie))" by code_simp
  have t2: "row (move (move_at alice 2 2)) < 3" by code_simp
  have t3: "col (move (move_at alice 2 2)) < 3" by code_simp
  have t4: "applyMove scenario_tie (move_at alice 2 2)
     = Inr (scenario_tie\<lparr>state := (state scenario_tie)
              \<lparr>moves := moves (state scenario_tie) @ [\<lparr>gamePiece = PieceX, row = 2, col = 2\<rparr>],
               status := OVER, winner := None\<rparr>\<rparr>)" by code_simp
  have w: "wins_through (moves (state scenario_a) @ [\<lparr>gamePiece = PieceX, row = 0, col = 2\<rparr>])
       PieceX (0, 2)" by code_simp
  have n: "\<not> wins_any (moves (state scenario_tie) @ [\<lparr>gamePiece = PieceX, row = 2, col = 2\<rparr>])
         PieceX" by code_simp
  have f: "board_full (moves (state scenario_tie) @ [\<lparr>gamePiece = PieceX, row = 2, col = 2\<rparr>])"
    by code_simp
  from applyMove_outcome [OF a1 a2 a3 a4] applyMove_outcome [OF t1 t2 t3 t4] a4 t4 w n f
  show ?thesis by blast
qed

text \<open>
  The claim as stated fails for a line that does not pass through the cell just
  played. Alice wins on the top row, both players leave, alice joins again and the
  status is \<^verbatim>\<open>IN_PROGRESS\<close> on the old board; her move on (2, 2) succeeds, she holds
  the whole top row, and the status stays \<^verbatim>\<open>IN_PROGRESS\<close> with winner bob.
\<close>

theorem completed_line_not_detected:
  "run (new_game ''g1'')
     [Join alice, Join bob, Move (move_at alice 0 0), Move (move_at bob 1 1),
      Move (move_at alice 0 1), Move (move_at bob 1 0), Move (move_at alice 0 2),
      Leave alice, Leave bob, Join alice] = Inr resumed_game
   \<and> applyMove resumed_game (move_at alice 2 2)
     = Inr (resumed_game\<lparr>state := (state resumed_game)
              \<lparr>moves := moves (state resumed_game)
                 @ [\<lparr>gamePiece = PieceX, row = 2, col = 2\<rparr>]\<rparr>\<rparr>)
   \<and> status (state resumed_game) = IN_PROGRESS
   \<and> winner (state resumed_game) = Some ''bob''
   \<and> holds_line (moves (state resumed_game) @ [\<lparr>gamePiece = PieceX, row = 2, col = 2\<rparr>])
        PieceX [(0, 0), (0, 1), (0, 2)]
   \<and> wins_any (moves (state resumed_game) @ [\<lparr>gamePiece = PieceX, row = 2, col = 2\<rparr>])
        PieceX"
  by code_simp

end
